theory Spec2Isabelle
  imports Main "HOL-Library.Sublist"
begin

section \<open>JavaScript values\<close>

text \<open>
  The client in \<^verbatim>\<open>src/index.js\<close> is dynamically typed: its methods test their
  arguments for truthiness and with \<^verbatim>\<open>typeof\<close>. The values that can reach it are
  modelled by \<open>jsval\<close>. A string is a list of code units; a \<open>char\<close> stands for a
  code unit below 256. A number is an integer-valued double or \<^verbatim>\<open>NaN\<close>. An object
  is the list of its own enumerable properties in enumeration order.
\<close>

datatype jsval =
    Undefined
  | Null
  | Bool bool
  | Num int
  | NaN
  | Str string
  | Arr "jsval list"
  | Obj "(string \<times> jsval) list"

text \<open>\<^verbatim>\<open>ToBoolean\<close>: what \<^verbatim>\<open>if (v)\<close>, \<^verbatim>\<open>!v\<close> and \<^verbatim>\<open>v ? a : b\<close> test.\<close>

fun truthy :: "jsval \<Rightarrow> bool" where
  "truthy Undefined = False"
| "truthy Null = False"
| "truthy (Bool b) = b"
| "truthy (Num n) = (n \<noteq> 0)"
| "truthy NaN = False"
| "truthy (Str s) = (s \<noteq> [])"
| "truthy (Arr xs) = True"
| "truthy (Obj ps) = True"

fun typeof :: "jsval \<Rightarrow> string" where
  "typeof Undefined = ''undefined''"
| "typeof Null = ''object''"
| "typeof (Bool b) = ''boolean''"
| "typeof (Num n) = ''number''"
| "typeof NaN = ''number''"
| "typeof (Str s) = ''string''"
| "typeof (Arr xs) = ''object''"
| "typeof (Obj ps) = ''object''"

section \<open>Errors\<close>

text \<open>
  What \<^verbatim>\<open>catch (error)\<close> in \<^verbatim>\<open>request\<close> receives from the HTTP library: an error
  object whose \<^verbatim>\<open>response\<close> is set when the server answered with a status outside
  2xx, whose \<^verbatim>\<open>request\<close> is set when the request went out, and which may carry a
  \<^verbatim>\<open>message\<close>.
\<close>

record http_response =
  resp_status :: int
  resp_data :: jsval

record http_error =
  err_response :: "http_response option"
  err_request :: bool
  err_message :: "string option"

text \<open>
  What the module throws. Every \<^verbatim>\<open>throw\<close> of the source is \<^verbatim>\<open>new Error(message)\<close>;
  \<^verbatim>\<open>buildError\<close> attaches \<^verbatim>\<open>status\<close> and \<^verbatim>\<open>original\<close> to such an object. Calling
  \<^verbatim>\<open>trim\<close> on a value that has no such method makes the runtime throw a
  \<^verbatim>\<open>TypeError\<close>.
\<close>

record js_error =
  name :: string
  message :: string
  status :: "int option"
  original :: "http_error option"

definition new_Error :: "string \<Rightarrow> js_error" where
  "new_Error msg = \<lparr>name = ''Error'', message = msg, status = None, original = None\<rparr>"

definition new_TypeError :: "string \<Rightarrow> js_error" where
  "new_TypeError msg = \<lparr>name = ''TypeError'', message = msg, status = None, original = None\<rparr>"

section \<open>Base URL normalisation\<close>

text \<open>
  \<^verbatim>\<open>String.prototype.trim\<close> removes white space and line terminators from both
  ends. Below 256 these are the code units 9 to 13, 32 and 160.
\<close>

definition is_ws :: "char \<Rightarrow> bool" where
  "is_ws c = (of_char c \<in> {9, 10, 11, 12, 13, 32, 160 :: nat})"

definition trim :: "string \<Rightarrow> string" where
  "trim s = rev (dropWhile is_ws (rev (dropWhile is_ws s)))"

text \<open>
  The regular expression \<^verbatim>\<open>/^https?:\/\//i\<close>. With the flag \<^verbatim>\<open>i\<close> and without
  \<^verbatim>\<open>u\<close>, two code units match when their canonical forms (the upper-case
  mapping, which never sends a code unit from 128 on to one below 128) are equal.
  The pattern has letters of a to z, a colon and slashes only, so the mapping
  matters on a to z alone. An item is a character or an optional character; the
  matcher tries the optional character first and backtracks.
\<close>

definition canonicalize :: "char \<Rightarrow> char" where
  "canonicalize c =
     (let n = of_char c :: nat in if 97 \<le> n \<and> n \<le> 122 then char_of (n - 32) else c)"

datatype re_item = Chr char | Opt char

fun re_match :: "re_item list \<Rightarrow> string \<Rightarrow> bool" where
  "re_match [] s = True"
| "re_match (Chr c # r) [] = False"
| "re_match (Chr c # r) (x # xs) = (canonicalize x = canonicalize c \<and> re_match r xs)"
| "re_match (Opt c # r) [] = re_match r []"
| "re_match (Opt c # r) (x # xs) =
     ((canonicalize x = canonicalize c \<and> re_match r xs) \<or> re_match r (x # xs))"

definition protocol_re :: "re_item list" where
  "protocol_re = [Chr CHR ''h'', Chr CHR ''t'', Chr CHR ''t'', Chr CHR ''p'', Opt CHR ''s'',
                  Chr CHR '':'', Chr CHR ''/'', Chr CHR ''/'']"

text \<open>
  \<^verbatim>\<open>s.replace(/\/$/, '')\<close>: the first position where a slash is followed by the end
  of the input is replaced by nothing; without such a position the string is
  returned as it is.
\<close>

fun replace_trailing_slash :: "string \<Rightarrow> string" where
  "replace_trailing_slash [] = []"
| "replace_trailing_slash (c # cs) =
     (if c = CHR ''/'' \<and> cs = [] then [] else c # replace_trailing_slash cs)"

definition normalizeBaseUrl :: "jsval \<Rightarrow> js_error + string" where
  "normalizeBaseUrl url =
     (if \<not> truthy url then Inl (new_Error ''A base URL must be provided.'')
      else case url of
        Str s \<Rightarrow>
          (let trimmed = trim s;
               withProtocol = (if re_match protocol_re trimmed then trimmed
                               else ''https://'' @ trimmed)
           in Inr (replace_trailing_slash withProtocol))
      | _ \<Rightarrow> Inl (new_TypeError ''url.trim is not a function''))"

text \<open>
  The contract of section 4.1 of the specification, in its own words: fail when the
  string is empty or absent; otherwise trim, prepend \<^verbatim>\<open>https://\<close> unless the string
  starts with \<^verbatim>\<open>http://\<close> or \<^verbatim>\<open>https://\<close> whatever the case of its letters, and strip
  one trailing slash if there is one.
\<close>

definition to_lower :: "char \<Rightarrow> char" where
  "to_lower c =
     (let n = of_char c :: nat in if 65 \<le> n \<and> n \<le> 90 then char_of (n + 32) else c)"

definition starts_with_ci :: "string \<Rightarrow> string \<Rightarrow> bool" where
  "starts_with_ci pre s = (map to_lower (take (length pre) s) = map to_lower pre)"

definition strip_one_slash :: "string \<Rightarrow> string" where
  "strip_one_slash s = (if s \<noteq> [] \<and> last s = CHR ''/'' then butlast s else s)"

definition normalize_base_url_spec :: "string option \<Rightarrow> js_error + string" where
  "normalize_base_url_spec inp =
     (case inp of
        None \<Rightarrow> Inl (new_Error ''A base URL must be provided.'')
      | Some s \<Rightarrow>
          if s = [] then Inl (new_Error ''A base URL must be provided.'')
          else
            let t = trim s;
                p = (if starts_with_ci ''http://'' t \<or> starts_with_ci ''https://'' t then t
                     else ''https://'' @ t)
            in Inr (strip_one_slash p))"

text \<open>An absent string is \<^verbatim>\<open>undefined\<close> at the call.\<close>

definition of_string_option :: "string option \<Rightarrow> jsval" where
  "of_string_option inp = (case inp of None \<Rightarrow> Undefined | Some s \<Rightarrow> Str s)"


section \<open>Rendering values as text\<close>

text \<open>
  A template literal renders a number with \<^verbatim>\<open>Number::toString\<close>: for an integer
  below \<open>10\<^sup>2\<^sup>1\<close> in absolute value, its decimal digits after a minus sign when
  it is negative.
\<close>

definition digit_char :: "nat \<Rightarrow> char" where
  "digit_char d = char_of (48 + d)"

function show_nat :: "nat \<Rightarrow> string" where
  "show_nat n = (if n < 10 then [digit_char n] else show_nat (n div 10) @ [digit_char (n mod 10)])"
  by pat_completeness auto
termination
  by (relation "measure id") auto

declare show_nat.simps [simp del]

definition show_int :: "int \<Rightarrow> string" where
  "show_int i = (if i < 0 then CHR ''-'' # show_nat (nat (- i)) else show_nat (nat i))"

text \<open>\<^verbatim>\<open>Array.prototype.join\<close> on a list of strings.\<close>

fun join :: "string \<Rightarrow> string list \<Rightarrow> string" where
  "join sep [] = []"
| "join sep [x] = x"
| "join sep (x # y # ys) = x @ sep @ join sep (y # ys)"

text \<open>
  \<^verbatim>\<open>JSON.stringify\<close>. A string is quoted; the quote and the backslash are escaped,
  the control characters get their short escape or \<^verbatim>\<open>\u00XX\<close>. \<^verbatim>\<open>NaN\<close> is written
  \<^verbatim>\<open>null\<close>. An \<^verbatim>\<open>undefined\<close> element of an array is written \<^verbatim>\<open>null\<close>, a property
  whose value is \<^verbatim>\<open>undefined\<close> is left out, and \<^verbatim>\<open>undefined\<close> itself has no
  rendering (the result \<open>None\<close>).
\<close>

definition hex_char :: "nat \<Rightarrow> char" where
  "hex_char d = (if d < 10 then char_of (48 + d) else char_of (87 + d))"

definition json_escape :: "char \<Rightarrow> string" where
  "json_escape c =
     (let n = of_char c :: nat in
      if n = 34 then [CHR 0x5C, CHR 0x22]
      else if n = 92 then [CHR 0x5C, CHR 0x5C]
      else if n = 8 then [CHR 0x5C, CHR ''b'']
      else if n = 12 then [CHR 0x5C, CHR ''f'']
      else if n = 10 then [CHR 0x5C, CHR ''n'']
      else if n = 13 then [CHR 0x5C, CHR ''r'']
      else if n = 9 then [CHR 0x5C, CHR ''t'']
      else if n < 32 then [CHR 0x5C, CHR ''u'', CHR ''0'', CHR ''0'',
                           hex_char (n div 16), hex_char (n mod 16)]
      else [c])"

definition json_quote :: "string \<Rightarrow> string" where
  "json_quote s = CHR 0x22 # concat (map json_escape s) @ [CHR 0x22]"

fun JSON_stringify :: "jsval \<Rightarrow> string option"
  and stringify_elements :: "jsval list \<Rightarrow> string list"
  and stringify_properties :: "(string \<times> jsval) list \<Rightarrow> string list"
where
  "JSON_stringify Undefined = None"
| "JSON_stringify Null = Some ''null''"
| "JSON_stringify (Bool b) = Some (if b then ''true'' else ''false'')"
| "JSON_stringify (Num n) = Some (show_int n)"
| "JSON_stringify NaN = Some ''null''"
| "JSON_stringify (Str s) = Some (json_quote s)"
| "JSON_stringify (Arr xs) = Some (''['' @ join '','' (stringify_elements xs) @ '']'')"
| "JSON_stringify (Obj ps) = Some (''{'' @ join '','' (stringify_properties ps) @ ''}'')"
| "stringify_elements [] = []"
| "stringify_elements (x # xs) =
     (case JSON_stringify x of None \<Rightarrow> ''null'' | Some t \<Rightarrow> t) # stringify_elements xs"
| "stringify_properties [] = []"
| "stringify_properties ((k, v) # ps) =
     (case JSON_stringify v of
        None \<Rightarrow> stringify_properties ps
      | Some t \<Rightarrow> (json_quote k @ '':'' @ t) # stringify_properties ps)"

text \<open>
  The \<^verbatim>\<open>payload\<close> of \<^verbatim>\<open>buildError\<close>: the body itself when it is a string, its
  JSON text otherwise, as the template literal renders it.
\<close>

definition payload_of :: "jsval \<Rightarrow> string" where
  "payload_of d =
     (case d of
        Str s \<Rightarrow> s
      | _ \<Rightarrow> (case JSON_stringify d of Some t \<Rightarrow> t | None \<Rightarrow> ''undefined''))"

section \<open>Wrapping a failed request\<close>

definition buildError :: "http_error \<Rightarrow> string option \<Rightarrow> js_error" where
  "buildError error context =
     (let parts0 = [''Api request failed'' @
                      (case context of
                         Some c \<Rightarrow> if c \<noteq> [] then '' during '' @ c else []
                       | None \<Rightarrow> [])];
          parts =
            (case err_response error of
               Some response \<Rightarrow>
                 (let parts1 = parts0 @ [''status '' @ show_int (resp_status response)]
                  in if truthy (resp_data response)
                     then parts1 @ [''response: '' @ payload_of (resp_data response)]
                     else parts1)
             | None \<Rightarrow>
                 if err_request error then parts0 @ [''no response received from server'']
                 else (case err_message error of
                         Some m \<Rightarrow> if m \<noteq> [] then parts0 @ [m] else parts0
                       | None \<Rightarrow> parts0))
      in \<lparr>name = ''Error'',
          message = join '' | '' parts,
          status = (case err_response error of
                      Some response \<Rightarrow> Some (resp_status response)
                    | None \<Rightarrow> None),
          original = Some error\<rparr>)"

section \<open>The client\<close>

text \<open>
  The HTTP library is outside the repository. Of it the client uses an instance
  with defaults (\<^verbatim>\<open>axios.create\<close>), whose \<^verbatim>\<open>request\<close> merges the defaults into the
  given configuration and hands the result to the network. The network is the
  parameter \<open>transport\<close>. The field \<^verbatim>\<open>method\<close> of a request configuration is
  \<open>http_method\<close> here.
\<close>

record axios_instance =
  defaults_baseURL :: string
  defaults_timeout :: nat
  defaults_headers_common :: "string \<rightharpoonup> jsval"

record request_config =
  http_method :: string
  url :: string
  data :: jsval
  params :: jsval

record sent_request =
  sent_baseURL :: string
  sent_timeout :: nat
  sent_headers :: "string \<rightharpoonup> jsval"
  sent_method :: string
  sent_url :: string
  sent_data :: jsval
  sent_params :: jsval

type_synonym transport = "sent_request \<Rightarrow> http_error + http_response"

text \<open>
  Every method of the client that reaches the network is declared \<^verbatim>\<open>async\<close>. A call
  of such a method does not throw: it returns a promise, which is rejected with
  what the body throws and fulfilled with what the body returns. A call is
  modelled by what it does at once (\<open>Inl\<close> when it throws, as for the functions
  that are not \<^verbatim>\<open>async\<close>, \<open>Inr\<close> with the promise it returns, in its settled state)
  and by the list of requests the transport received.
\<close>

datatype 'a promise = Fulfilled 'a | Rejected js_error

type_synonym 'a call = "(js_error + 'a promise) \<times> sent_request list"

text \<open>The body of an \<^verbatim>\<open>async\<close> method throws before any request is made.\<close>

definition async_throw :: "js_error \<Rightarrow> 'a call" where
  "async_throw e = (Inr (Rejected e), [])"

text \<open>
  The body of an \<^verbatim>\<open>async\<close> method ends in \<^verbatim>\<open>return\<close> of a call: had that call
  thrown, the promise would be rejected; otherwise the promise takes the state of
  the returned one.
\<close>

definition async_return :: "'a call \<Rightarrow> 'a call" where
  "async_return c = (case fst c of Inl e \<Rightarrow> Inr (Rejected e) | Inr p \<Rightarrow> Inr p, snd c)"

definition axios_create :: "string \<Rightarrow> nat \<Rightarrow> axios_instance" where
  "axios_create b t =
     \<lparr>defaults_baseURL = b, defaults_timeout = t,
      defaults_headers_common = [''Accept'' \<mapsto> Str ''application/json, text/plain, */*'']\<rparr>"

definition merge_config :: "axios_instance \<Rightarrow> request_config \<Rightarrow> sent_request" where
  "merge_config inst config =
     \<lparr>sent_baseURL = defaults_baseURL inst,
      sent_timeout = defaults_timeout inst,
      sent_headers = defaults_headers_common inst,
      sent_method = http_method config,
      sent_url = url config,
      sent_data = data config,
      sent_params = params config\<rparr>"

record GeoApi =
  baseURL :: string
  client :: axios_instance
  appCheckToken :: jsval

definition DEFAULT_BASE_URL :: string where
  "DEFAULT_BASE_URL = ''api.geo.oof2510.space''"

definition setAppCheckToken :: "GeoApi \<Rightarrow> jsval \<Rightarrow> GeoApi" where
  "setAppCheckToken this token =
     (let common = defaults_headers_common (client this)
      in this\<lparr>appCheckToken := token,
              client := (client this)\<lparr>defaults_headers_common :=
                (if truthy token then common(''X-Firebase-AppCheck'' \<mapsto> token)
                 else common(''X-Firebase-AppCheck'' := None))\<rparr>\<rparr>)"

text \<open>A parameter with a default takes it when the argument is \<^verbatim>\<open>undefined\<close>.\<close>

definition constructor :: "jsval \<Rightarrow> jsval \<Rightarrow> js_error + GeoApi" where
  "constructor baseURL_arg appCheckToken_arg =
     (let baseURL' = (if baseURL_arg = Undefined then Str DEFAULT_BASE_URL else baseURL_arg);
          appCheckToken' = (if appCheckToken_arg = Undefined then Null else appCheckToken_arg)
      in case normalizeBaseUrl baseURL' of
           Inl e \<Rightarrow> Inl e
         | Inr u \<Rightarrow>
             (let this = \<lparr>baseURL = u, client = axios_create u 15000, appCheckToken = Null\<rparr>
              in Inr (if truthy appCheckToken' then setAppCheckToken this appCheckToken'
                      else this)))"

definition setBaseUrl :: "GeoApi \<Rightarrow> jsval \<Rightarrow> js_error + GeoApi" where
  "setBaseUrl this baseURL' =
     (case normalizeBaseUrl baseURL' of
        Inl e \<Rightarrow> Inl e
      | Inr u \<Rightarrow> Inr (this\<lparr>baseURL := u, client := (client this)\<lparr>defaults_baseURL := u\<rparr>\<rparr>))"

definition ensureAppCheckToken :: "GeoApi \<Rightarrow> string \<Rightarrow> js_error + unit" where
  "ensureAppCheckToken this action =
     (if \<not> truthy (appCheckToken this)
      then Inl (new_Error (''An App Check token is required to '' @ action @
                           ''. Call setAppCheckToken(token) first.''))
      else Inr ())"

text \<open>
  \<^verbatim>\<open>request\<close> awaits the transport inside \<^verbatim>\<open>try\<close>: it returns the data of the
  response, or catches the failure and throws it wrapped, which rejects the promise.
\<close>

definition request :: "GeoApi \<Rightarrow> transport \<Rightarrow> request_config \<Rightarrow> string option \<Rightarrow> jsval call" where
  "request this transport config context =
     (let sent = merge_config (client this) config
      in (Inr (case transport sent of
                 Inr response \<Rightarrow> Fulfilled (resp_data response)
               | Inl error \<Rightarrow> Rejected (buildError error context)),
          [sent]))"

definition getImage :: "GeoApi \<Rightarrow> transport \<Rightarrow> jsval call" where
  "getImage this transport =
     async_return (request this transport
       \<lparr>http_method = ''get'', url = ''/getImage'', data = Undefined, params = Undefined\<rparr>
       (Some ''fetch image payload''))"

definition getPano :: "GeoApi \<Rightarrow> transport \<Rightarrow> jsval call" where
  "getPano this transport =
     async_return (request this transport
       \<lparr>http_method = ''get'', url = ''/getPano'', data = Undefined, params = Undefined\<rparr>
       (Some ''fetch panorama image payload''))"

definition startGame :: "GeoApi \<Rightarrow> transport \<Rightarrow> jsval call" where
  "startGame this transport =
     (case ensureAppCheckToken this ''start a game'' of
        Inl e \<Rightarrow> async_throw e
      | Inr _ \<Rightarrow>
          async_return (request this transport
            \<lparr>http_method = ''post'', url = ''/game/start'', data = Undefined, params = Undefined\<rparr>
            (Some ''start game'')))"

definition submitScore :: "GeoApi \<Rightarrow> transport \<Rightarrow> jsval \<Rightarrow> jsval \<Rightarrow> jsval \<Rightarrow> jsval call" where
  "submitScore this transport gameSessionId score metadata_arg =
     (let metadata = (if metadata_arg = Undefined then Obj [] else metadata_arg)
      in case ensureAppCheckToken this ''submit a score'' of
           Inl e \<Rightarrow> async_throw e
         | Inr _ \<Rightarrow>
             if \<not> truthy gameSessionId
             then async_throw (new_Error ''gameSessionId is required to submit a score.'')
             else if typeof score \<noteq> ''number''
             then async_throw (new_Error ''score must be provided as a number.'')
             else async_return (request this transport
                    \<lparr>http_method = ''post'', url = ''/game/submit'',
                     data = Obj [(''gameSessionId'', gameSessionId), (''score'', score),
                                 (''metadata'', metadata)],
                     params = Undefined\<rparr>
                    (Some ''submit score'')))"

definition startAiDuel :: "GeoApi \<Rightarrow> transport \<Rightarrow> jsval call" where
  "startAiDuel this transport =
     (case ensureAppCheckToken this ''start an AI duel'' of
        Inl e \<Rightarrow> async_throw e
      | Inr _ \<Rightarrow>
          async_return (request this transport
            \<lparr>http_method = ''post'', url = ''/ai-duel/start'', data = Undefined, params = Undefined\<rparr>
            (Some ''start AI duel'')))"

text \<open>
  \<^verbatim>\<open>roundIndex < 0\<close> is evaluated only when \<^verbatim>\<open>roundIndex\<close> is a number; it is
  false for \<^verbatim>\<open>NaN\<close>.
\<close>

definition less_than_zero :: "jsval \<Rightarrow> bool" where
  "less_than_zero v = (case v of Num n \<Rightarrow> n < 0 | _ \<Rightarrow> False)"

definition submitAiGuess :: "GeoApi \<Rightarrow> transport \<Rightarrow> jsval \<Rightarrow> jsval \<Rightarrow> jsval \<Rightarrow> jsval call" where
  "submitAiGuess this transport matchId roundIndex guess =
     (case ensureAppCheckToken this ''submit an AI duel guess'' of
        Inl e \<Rightarrow> async_throw e
      | Inr _ \<Rightarrow>
          if \<not> truthy matchId
          then async_throw (new_Error ''matchId is required to submit an AI duel guess.'')
          else if typeof roundIndex \<noteq> ''number'' \<or> less_than_zero roundIndex
          then async_throw (new_Error ''roundIndex must be a non-negative number.'')
          else async_return (request this transport
                 \<lparr>http_method = ''post'', url = ''/ai-duel/guess'',
                  data = Obj [(''matchId'', matchId), (''roundIndex'', roundIndex),
                              (''guess'', guess)],
                  params = Undefined\<rparr>
                 (Some ''submit AI duel guess'')))"

definition getLeaderboard :: "GeoApi \<Rightarrow> transport \<Rightarrow> jsval \<Rightarrow> jsval call" where
  "getLeaderboard this transport limit =
     async_return (request this transport
       \<lparr>http_method = ''get'', url = ''/leaderboard/top'', data = Undefined,
        params = (if truthy limit then Obj [(''limit'', limit)] else Undefined)\<rparr>
       (Some ''fetch leaderboard''))"


definition testAi :: "GeoApi \<Rightarrow> transport \<Rightarrow> jsval \<Rightarrow> jsval call" where
  "testAi this transport key =
     (if \<not> truthy key
      then async_throw (new_Error ''A testing key is required to call the test AI endpoint.'')
      else async_return (request this transport
             \<lparr>http_method = ''get'', url = ''/test-ai'', data = Undefined,
              params = Obj [(''key'', key)]\<rparr>
             (Some ''test AI endpoint'')))"

section \<open>Notions used by the statements\<close>

text \<open>A call fails synchronously when it throws instead of returning.\<close>

definition fails_synchronously :: "'a call \<Rightarrow> bool" where
  "fails_synchronously c = isl (fst c)"


text \<open>
  The App Check header is among the default headers, with the stored token as its
  value, exactly when the stored token is truthy.
\<close>

definition token_header_inv :: "GeoApi \<Rightarrow> bool" where
  "token_header_inv this =
     (defaults_headers_common (client this) ''X-Firebase-AppCheck'' =
        (if truthy (appCheckToken this) then Some (appCheckToken this) else None))"


text \<open>\<^verbatim>\<open>Object.keys\<close>: the names of the fields of an object, in order.\<close>

definition object_keys :: "jsval \<Rightarrow> string list" where
  "object_keys v = (case v of Obj ps \<Rightarrow> map fst ps | _ \<Rightarrow> [])"

section \<open>Clients and transports of the examples\<close>

text \<open>
  The client that \<^verbatim>\<open>new GeoApi()\<close> builds and the one that
  \<^verbatim>\<open>new GeoApi(undefined, 'abc')\<close> builds; a transport that answers every request
  with status 200 and one that fails every request with a given error; the error of
  a response with status 500 and body \<^verbatim>\<open>{"error":"boom"}\<close>, and the error of a request
  that timed out.
\<close>

definition default_client :: GeoApi where
  "default_client =
     \<lparr>baseURL = ''https://api.geo.oof2510.space'',
      client = axios_create ''https://api.geo.oof2510.space'' 15000,
      appCheckToken = Null\<rparr>"

definition token_client :: GeoApi where
  "token_client = setAppCheckToken default_client (Str ''abc'')"

definition ok_transport :: transport where
  "ok_transport sent = Inr \<lparr>resp_status = 200, resp_data = Obj [(''ok'', Bool True)]\<rparr>"




section \<open>Properties of the normalisation\<close>

subsection \<open>The regular expression and the prefix test\<close>

lemma of_char_canonicalize:
  "(of_char (canonicalize x) :: nat) =
     (if 97 \<le> (of_char x :: nat) \<and> (of_char x :: nat) \<le> 122 then of_char x - 32 else of_char x)"
proof -
  have "(of_char x :: nat) < 256" by simp
  then have "(of_char x :: nat) - 32 < 256" by arith
  then have "((of_char x :: nat) - 32) mod 256 = of_char x - 32" by (rule mod_less)
  then show ?thesis by (simp add: canonicalize_def Let_def)
qed

lemma of_char_to_lower:
  "(of_char (to_lower x) :: nat) =
     (if 65 \<le> (of_char x :: nat) \<and> (of_char x :: nat) \<le> 90 then of_char x + 32 else of_char x)"
  by (simp add: to_lower_def Let_def)

lemma canonicalize_eq_iff: "(canonicalize x = canonicalize c) = (to_lower x = to_lower c)"
proof -
  define n :: nat where "n = of_char x"
  define m :: nat where "m = of_char c"
  have xc: "(x = c) = (n = m)" by (simp add: n_def m_def)
  have cn: "(canonicalize x = canonicalize c) =
      ((of_char (canonicalize x) :: nat) = of_char (canonicalize c))" by simp
  have lw: "(to_lower x = to_lower c) =
      ((of_char (to_lower x) :: nat) = of_char (to_lower c))" by simp
  show ?thesis
    unfolding cn lw of_char_canonicalize of_char_to_lower n_def [symmetric] m_def [symmetric]
    by (auto split: if_splits)
qed

lemma replace_trailing_slash_eq: "replace_trailing_slash s = strip_one_slash s"
  by (induction s) (auto simp: strip_one_slash_def)

lemma starts_with_ci_Nil: "starts_with_ci [] s = True"
  by (simp add: starts_with_ci_def)

lemma starts_with_ci_Cons:
  "starts_with_ci (c # p) s =
     (case s of [] \<Rightarrow> False | x # xs \<Rightarrow> to_lower x = to_lower c \<and> starts_with_ci p xs)"
  by (cases s) (simp_all add: starts_with_ci_def)

lemma starts_with_ci_append:
  "starts_with_ci (p @ q) s = (starts_with_ci p s \<and> starts_with_ci q (drop (length p) s))"
  by (induction p arbitrary: s) (auto simp: starts_with_ci_Nil starts_with_ci_Cons split: list.splits)

lemma re_match_chrs_append:
  "re_match (map Chr p @ r) s = (starts_with_ci p s \<and> re_match r (drop (length p) s))"
proof (induction p arbitrary: s)
  case Nil
  show ?case by (simp add: starts_with_ci_Nil)
next
  case (Cons c p)
  show ?case
    by (cases s) (simp_all add: starts_with_ci_Cons Cons.IH canonicalize_eq_iff)
qed

lemma re_match_chrs: "re_match (map Chr p) s = starts_with_ci p s"
  using re_match_chrs_append [of p "[]" s] by simp

lemma re_match_Opt: "re_match (Opt c # r) s = (re_match (Chr c # r) s \<or> re_match r s)"
  by (cases s) simp_all

lemma re_match_protocol:
  "re_match protocol_re t = (starts_with_ci ''http://'' t \<or> starts_with_ci ''https://'' t)"
proof -
  have split_re: "protocol_re = map Chr ''http'' @ (Opt CHR ''s'' # map Chr ''://'')"
    by (simp add: protocol_re_def)
  have with_s: "re_match (Chr CHR ''s'' # map Chr ''://'') u = starts_with_ci ''s://'' u" for u
    using re_match_chrs [of "''s://''" u] by simp
  have "re_match protocol_re t =
          (starts_with_ci ''http'' t \<and>
             (starts_with_ci ''s://'' (drop (length ''http'') t) \<or>
              starts_with_ci ''://'' (drop (length ''http'') t)))"
    unfolding split_re re_match_chrs_append re_match_Opt with_s re_match_chrs by (rule refl)
  also have "\<dots> = (starts_with_ci (''http'' @ ''://'') t \<or> starts_with_ci (''http'' @ ''s://'') t)"
    unfolding starts_with_ci_append by auto
  finally show ?thesis by simp
qed


subsection \<open>Trimming and prefixes\<close>

lemma to_lower_slash: "(to_lower x = CHR ''/'') = (x = CHR ''/'')"
proof -
  have a: "(to_lower x = CHR ''/'') = ((of_char (to_lower x) :: nat) = of_char CHR ''/'')"
    by (simp only: of_char_eq_iff)
  have b: "(x = CHR ''/'') = ((of_char x :: nat) = of_char CHR ''/'')"
    by (simp only: of_char_eq_iff)
  show ?thesis unfolding a b of_char_to_lower by simp
qed

lemma to_lower_h_not_ws: "to_lower x = CHR ''h'' \<Longrightarrow> \<not> is_ws x"
proof -
  assume h: "to_lower x = CHR ''h''"
  have "(of_char (to_lower x) :: nat) = of_char CHR ''h''" using h by simp
  then show ?thesis unfolding of_char_to_lower is_ws_def by (auto split: if_splits)
qed

lemma slash_not_ws: "\<not> is_ws CHR ''/''"
  by (simp add: is_ws_def)

lemma starts_with_ci_length: "starts_with_ci pre s \<Longrightarrow> length pre \<le> length s"
proof -
  assume "starts_with_ci pre s"
  then have "length (map to_lower (take (length pre) s)) = length (map to_lower pre)"
    by (simp only: starts_with_ci_def)
  then show ?thesis by simp
qed

lemma starts_with_ci_nth:
  assumes "starts_with_ci pre s" and "i < length pre"
  shows "to_lower (s ! i) = to_lower (pre ! i)"
proof -
  have len: "length pre \<le> length s" using assms(1) by (rule starts_with_ci_length)
  have "map to_lower (take (length pre) s) ! i = map to_lower pre ! i"
    using assms(1) by (simp only: starts_with_ci_def)
  then show ?thesis using assms(2) len by simp
qed

lemma starts_with_ci_take_append:
  "length pre \<le> length s \<Longrightarrow> starts_with_ci pre (take (length pre) s @ w) = starts_with_ci pre s"
  by (simp add: starts_with_ci_def)

lemma starts_with_ci_butlast:
  "starts_with_ci pre s \<Longrightarrow> length pre < length s \<Longrightarrow> starts_with_ci pre (butlast s)"
  by (simp add: starts_with_ci_def take_butlast)

lemma dropWhile_hd: "xs \<noteq> [] \<Longrightarrow> \<not> P (hd xs) \<Longrightarrow> dropWhile P xs = xs"
  by (cases xs) simp_all

lemma trim_id: "s \<noteq> [] \<Longrightarrow> \<not> is_ws (hd s) \<Longrightarrow> \<not> is_ws (last s) \<Longrightarrow> trim s = s"
proof -
  assume ne: "s \<noteq> []" and h: "\<not> is_ws (hd s)" and l: "\<not> is_ws (last s)"
  have a: "dropWhile is_ws s = s" using ne h by (rule dropWhile_hd)
  have "hd (rev s) = last s" using ne by (simp add: hd_rev)
  then have b: "dropWhile is_ws (rev s) = rev s" using ne l by (simp add: dropWhile_hd)
  show ?thesis by (simp add: trim_def a b)
qed

lemma trim_all_ws: "\<forall>c \<in> set s. is_ws c \<Longrightarrow> trim s = []"
proof -
  assume "\<forall>c \<in> set s. is_ws c"
  then have d: "dropWhile is_ws s = []" by (simp only: dropWhile_eq_Nil_conv)
  show ?thesis unfolding trim_def d by simp
qed

lemma length_trim: "length (trim s) \<le> length s"
proof -
  have "length (trim s) = length (dropWhile is_ws (rev (dropWhile is_ws s)))"
    by (simp add: trim_def)
  also have "\<dots> \<le> length (rev (dropWhile is_ws s))" by (rule length_dropWhile_le)
  also have "\<dots> \<le> length s" by (simp add: length_dropWhile_le)
  finally show ?thesis .
qed

lemma length_trim_ws_last: "s \<noteq> [] \<Longrightarrow> is_ws (last s) \<Longrightarrow> length (trim s) < length s"
proof -
  assume ne: "s \<noteq> []" and l: "is_ws (last s)"
  show ?thesis
  proof (cases "dropWhile is_ws s = []")
    case True
    have "trim s = []" unfolding trim_def True by simp
    then show ?thesis using ne by simp
  next
    case False
    define d where "d = dropWhile is_ws s"
    have dne: "d \<noteq> []" using False by (simp add: d_def)
    have "\<exists>k. d = drop k s" unfolding d_def by (metis dropWhile_eq_drop)
    then have "last d = last s" using dne by auto
    then have "is_ws (hd (rev d))" using l dne by (simp add: hd_rev)
    then have "length (dropWhile is_ws (rev d)) < length (rev d)"
      using dne by (cases "rev d") (simp_all add: le_imp_less_Suc length_dropWhile_le)
    moreover have "length d \<le> length s" unfolding d_def by (rule length_dropWhile_le)
    ultimately show ?thesis by (simp add: trim_def d_def [symmetric])
  qed
qed

lemma trim_keeps_prefix:
  assumes "s \<noteq> []" and "\<not> is_ws (hd s)" and "0 < n" and "n \<le> length s"
    and "\<not> is_ws (s ! (n - 1))"
  shows "\<exists>w. trim s = take n s @ w"
proof -
  have a: "dropWhile is_ws s = s" using assms(1,2) by (rule dropWhile_hd)
  have tn: "take n s \<noteq> []" using assms(1,3) by (cases s) simp_all
  have "last (take n s) = s ! (n - 1)"
    using assms(3,4) tn by (simp add: last_conv_nth min_def)
  then have "\<not> is_ws (hd (rev (take n s)))" using assms(5) tn by (simp add: hd_rev)
  then have keep: "dropWhile is_ws (rev (take n s)) = rev (take n s)"
    using tn by (simp add: dropWhile_hd)
  have "rev s = rev (drop n s) @ rev (take n s)"
    by (metis append_take_drop_id rev_append)
  then have "\<exists>zs. dropWhile is_ws (rev s) = zs @ rev (take n s)"
    using keep by (auto simp: dropWhile_append)
  then obtain zs where "dropWhile is_ws (rev s) = zs @ rev (take n s)" ..
  then have "trim s = take n s @ rev zs" by (simp add: trim_def a)
  then show ?thesis ..
qed

lemma length_strip_one_slash: "length (strip_one_slash s) \<le> length s"
  by (simp add: strip_one_slash_def)


lemma normalizeBaseUrl_Str:
  "s \<noteq> [] \<Longrightarrow>
   normalizeBaseUrl (Str s) =
     Inr (strip_one_slash (if re_match protocol_re (trim s) then trim s else ''https://'' @ trim s))"
  by (simp add: normalizeBaseUrl_def Let_def replace_trailing_slash_eq)

lemma normalizeBaseUrl_Inr:
  assumes "normalizeBaseUrl v = Inr r"
  shows "\<exists>p. re_match protocol_re p \<and> r = strip_one_slash p"
proof -
  have tr: "truthy v" using assms by (auto simp: normalizeBaseUrl_def split: if_splits)
  then obtain s where v: "v = Str s" and ne: "s \<noteq> []"
    using assms by (cases v) (auto simp: normalizeBaseUrl_def new_TypeError_def)
  define p where "p = (if re_match protocol_re (trim s) then trim s else ''https://'' @ trim s)"
  have r: "r = strip_one_slash p"
    using assms unfolding v normalizeBaseUrl_Str [OF ne] p_def by simp
  have "re_match protocol_re (''https://'' @ t)" for t
    unfolding re_match_protocol by (simp add: starts_with_ci_def)
  then have "re_match protocol_re p" by (simp add: p_def)
  with r show ?thesis by blast
qed


lemma to_lower_of_slash: "to_lower CHR ''/'' = CHR ''/''"
  by (simp add: to_lower_def)

lemma protocol_hd:
  assumes "re_match protocol_re p"
  shows "7 \<le> length p \<and> \<not> is_ws (hd p)"
proof -
  from assms have "starts_with_ci ''http://'' p \<or> starts_with_ci ''https://'' p"
    by (simp only: re_match_protocol)
  then have len: "7 \<le> length p" and "to_lower (p ! 0) = CHR ''h''"
    using starts_with_ci_length [of "''http://''" p] starts_with_ci_length [of "''https://''" p]
      starts_with_ci_nth [of "''http://''" p 0] starts_with_ci_nth [of "''https://''" p 0]
    by (auto simp: to_lower_def)
  then have "\<not> is_ws (p ! 0)" by (simp add: to_lower_h_not_ws)
  moreover have "p \<noteq> []" using len by auto
  ultimately show ?thesis using len by (simp add: hd_conv_nth)
qed

lemma strip_hd:
  assumes "re_match protocol_re p"
  shows "strip_one_slash p \<noteq> [] \<and> \<not> is_ws (hd (strip_one_slash p))"
proof -
  have len: "7 \<le> length p" and h: "\<not> is_ws (hd p)" using protocol_hd [OF assms] by simp_all
  obtain a b q where p: "p = a # b # q" using len by (cases p; cases "tl p") auto
  have "hd (butlast p) = hd p" and "butlast p \<noteq> []" by (simp_all add: p)
  then show ?thesis using h len by (auto simp: strip_one_slash_def)
qed

lemma starts_with_ci_butlast_slash:
  assumes "starts_with_ci pre p" and "pre \<noteq> []" and "last pre = CHR ''/''"
    and "butlast pre \<noteq> []" and "last (butlast pre) = CHR ''/''"
    and "butlast p = [] \<or> last (butlast p) \<noteq> CHR ''/''"
  shows "starts_with_ci pre (butlast p)"
proof (cases "length pre < length p")
  case True
  with assms(1) show ?thesis by (rule starts_with_ci_butlast)
next
  case False
  then have len: "length p = length pre" using starts_with_ci_length [OF assms(1)] by simp
  have l2: "2 \<le> length pre" using assms(2,4) by (cases pre; cases "tl pre") auto
  have "to_lower (p ! (length pre - 2)) = to_lower (pre ! (length pre - 2))"
    using assms(1) l2 by (intro starts_with_ci_nth) auto
  moreover have "pre ! (length pre - 2) = last (butlast pre)"
    using l2 assms(4) by (simp add: last_conv_nth nth_butlast numeral_2_eq_2)
  ultimately have "p ! (length pre - 2) = CHR ''/''"
    using assms(5) by (simp add: to_lower_slash to_lower_of_slash)
  moreover have "butlast p \<noteq> []" using len l2 by (cases p; cases "tl p") auto
  moreover have "last (butlast p) = p ! (length pre - 2)"
    using len l2 \<open>butlast p \<noteq> []\<close> by (simp add: last_conv_nth nth_butlast numeral_2_eq_2)
  ultimately show ?thesis using assms(6) by simp
qed

lemma protocol_strip:
  assumes "re_match protocol_re p" and "last (strip_one_slash p) \<noteq> CHR ''/''"
  shows "re_match protocol_re (strip_one_slash p)"
proof (cases "p \<noteq> [] \<and> last p = CHR ''/''")
  case False
  then have "strip_one_slash p = p" by (auto simp: strip_one_slash_def)
  with assms(1) show ?thesis by simp
next
  case True
  then have eq: "strip_one_slash p = butlast p" by (simp add: strip_one_slash_def)
  have nl: "butlast p = [] \<or> last (butlast p) \<noteq> CHR ''/''" using assms(2) eq by simp
  from assms(1) have "starts_with_ci ''http://'' p \<or> starts_with_ci ''https://'' p"
    by (simp only: re_match_protocol)
  then have "starts_with_ci ''http://'' (butlast p) \<or> starts_with_ci ''https://'' (butlast p)"
    using starts_with_ci_butlast_slash [of "''http://''" p, OF _ _ _ _ _ nl]
      starts_with_ci_butlast_slash [of "''https://''" p, OF _ _ _ _ _ nl]
    by auto
  then show ?thesis by (simp only: eq re_match_protocol)
qed

lemma protocol_trim:
  assumes "re_match protocol_re r"
  shows "re_match protocol_re (trim r)"
proof -
  have len: "7 \<le> length r" and h: "\<not> is_ws (hd r)" using protocol_hd [OF assms] by simp_all
  have ne: "r \<noteq> []" using len by auto
  have keep: "starts_with_ci pre (trim r)"
    if sw: "starts_with_ci pre r" and pne: "pre \<noteq> []" and lp: "last pre = CHR ''/''" for pre
  proof -
    have pl: "length pre \<le> length r" using sw by (rule starts_with_ci_length)
    have pos: "0 < length pre" using pne by simp
    have "to_lower (r ! (length pre - 1)) = to_lower (pre ! (length pre - 1))"
      using sw pos by (intro starts_with_ci_nth) auto
    then have "r ! (length pre - 1) = CHR ''/''"
      using lp pne by (simp add: last_conv_nth to_lower_slash to_lower_of_slash)
    then have "\<not> is_ws (r ! (length pre - 1))" by (simp add: slash_not_ws)
    from trim_keeps_prefix [OF ne h pos pl this]
    obtain w where "trim r = take (length pre) r @ w" ..
    then show ?thesis using sw pl by (simp add: starts_with_ci_take_append)
  qed
  from assms have "starts_with_ci ''http://'' r \<or> starts_with_ci ''https://'' r"
    by (simp only: re_match_protocol)
  then have "starts_with_ci ''http://'' (trim r) \<or> starts_with_ci ''https://'' (trim r)"
    using keep [of "''http://''"] keep [of "''https://''"] by auto
  then show ?thesis by (simp only: re_match_protocol)
qed


text \<open>
  Claim C2. \<^verbatim>\<open>normalizeBaseUrl\<close> does what section 4.1 says: on an absent or empty
  string it fails with the error \<^verbatim>\<open>A base URL must be provided.\<close> (the source throws a
  plain \<^verbatim>\<open>Error\<close>; the specification files it under its configuration errors);
  on any other string it returns the trimmed input, with \<^verbatim>\<open>https://\<close> in front unless
  the trimmed input starts with \<^verbatim>\<open>http://\<close> or \<^verbatim>\<open>https://\<close> in any letter case, and
  without one trailing slash. It sends \<^verbatim>\<open>example.com/\<close> to \<^verbatim>\<open>https://example.com\<close> and
  leaves \<^verbatim>\<open>http://example.com\<close> as it is.
\<close>

theorem normalizeBaseUrl_contract:
  "normalizeBaseUrl (of_string_option inp) = normalize_base_url_spec inp
   \<and> normalizeBaseUrl Null = Inl (new_Error ''A base URL must be provided.'')
   \<and> normalizeBaseUrl (Str ''example.com/'') = Inr ''https://example.com''
   \<and> normalizeBaseUrl (Str ''http://example.com'') = Inr ''http://example.com''"
proof -
  have a: "normalizeBaseUrl (of_string_option inp) = normalize_base_url_spec inp"
  proof (cases inp)
    case None
    then show ?thesis
      by (simp add: of_string_option_def normalize_base_url_spec_def normalizeBaseUrl_def)
  next
    case (Some s)
    show ?thesis
    proof (cases "s = []")
      case True
      then show ?thesis
        by (simp add: Some of_string_option_def normalize_base_url_spec_def normalizeBaseUrl_def)
    next
      case False
      then show ?thesis
        by (simp add: Some of_string_option_def normalize_base_url_spec_def
            normalizeBaseUrl_Str re_match_protocol Let_def)
    qed
  qed
  have b: "normalizeBaseUrl Null = Inl (new_Error ''A base URL must be provided.'')"
    by (simp add: normalizeBaseUrl_def)
  have c: "normalizeBaseUrl (Str ''example.com/'') = Inr ''https://example.com''"
    by (simp add: normalizeBaseUrl_def trim_def is_ws_def protocol_re_def canonicalize_def)
  have d: "normalizeBaseUrl (Str ''http://example.com'') = Inr ''http://example.com''"
    by (simp add: normalizeBaseUrl_def trim_def is_ws_def protocol_re_def canonicalize_def)
  from a b c d show ?thesis by (intro conjI)
qed

text \<open>The contract at an input with spaces around it, capitals and a trailing slash.\<close>

theorem normalizeBaseUrl_contract_witness:
  "normalizeBaseUrl (Str '' HTTP://Example.com/ '') = Inr ''HTTP://Example.com''"
proof -
  have "normalize_base_url_spec (Some '' HTTP://Example.com/ '') = Inr ''HTTP://Example.com''"
    by code_simp
  then show ?thesis
    using normalizeBaseUrl_contract [of "Some '' HTTP://Example.com/ ''"]
    by (simp add: of_string_option_def)
qed

subsection \<open>Idempotence\<close>

lemma length_strip_one_slash_ge: "length s - 1 \<le> length (strip_one_slash s)"
  by (simp add: strip_one_slash_def)

text \<open>
  Claim C5 as stated fails. One slash is stripped per call, so an input that ends
  in two slashes has a result that the next call changes again.
\<close>

theorem normalizeBaseUrl_not_idempotent:
  "normalizeBaseUrl (Str ''example.com//'') = Inr ''https://example.com/''
   \<and> normalizeBaseUrl (Str ''https://example.com/'') \<noteq> Inr ''https://example.com/''"
  by (simp add: normalizeBaseUrl_def trim_def is_ws_def protocol_re_def canonicalize_def)

text \<open>
  Claim C5, amended. When \<^verbatim>\<open>normalizeBaseUrl\<close> succeeds with the result \<open>r\<close>,
  normalising \<open>r\<close> again gives \<open>r\<close> exactly when \<open>r\<close> ends neither in a slash
  nor in a white space character.
\<close>

theorem normalizeBaseUrl_idempotent_iff:
  assumes "normalizeBaseUrl v = Inr r"
  shows "(normalizeBaseUrl (Str r) = Inr r) = (last r \<noteq> CHR ''/'' \<and> \<not> is_ws (last r))"
proof -
  from normalizeBaseUrl_Inr [OF assms]
  obtain p where hp: "re_match protocol_re p" and r: "r = strip_one_slash p" by blast
  have ne: "r \<noteq> []" and h: "\<not> is_ws (hd r)" using strip_hd [OF hp] r by simp_all
  let ?again = "strip_one_slash (if re_match protocol_re (trim r) then trim r else ''https://'' @ trim r)"
  have again: "normalizeBaseUrl (Str r) = Inr ?again" using ne by (rule normalizeBaseUrl_Str)
  show ?thesis
  proof (cases "is_ws (last r)")
    case True
    then have "last r \<noteq> CHR ''/''" using slash_not_ws by auto
    then have "re_match protocol_re r" using protocol_strip [OF hp] r by simp
    then have "re_match protocol_re (trim r)" by (rule protocol_trim)
    then have "?again = strip_one_slash (trim r)" by simp
    moreover have "length (strip_one_slash (trim r)) \<le> length (trim r)"
      by (rule length_strip_one_slash)
    moreover have "length (trim r) < length r" using ne True by (rule length_trim_ws_last)
    ultimately have "?again \<noteq> r" by auto
    then show ?thesis using True again by simp
  next
    case nws: False
    have tr: "trim r = r" using ne h nws by (rule trim_id)
    show ?thesis
    proof (cases "last r = CHR ''/''")
      case False
      then have "re_match protocol_re r" using protocol_strip [OF hp] r by simp
      then have "?again = r" using False by (simp add: tr strip_one_slash_def)
      then show ?thesis using False nws again by simp
    next
      case True
      have "length ?again \<noteq> length r"
      proof (cases "re_match protocol_re r")
        case True
        then have "?again = butlast r" using \<open>last r = CHR ''/''\<close> ne
          by (simp add: tr strip_one_slash_def)
        then have "length ?again = length r - 1" by simp
        moreover have "0 < length r" using ne by simp
        ultimately show ?thesis by arith
      next
        case False
        then have "?again = strip_one_slash (''https://'' @ r)" by (simp add: tr)
        then have "length (''https://'' @ r) - 1 \<le> length ?again"
          using length_strip_one_slash_ge [of "''https://'' @ r"] by simp
        then show ?thesis by simp
      qed
      then have "?again \<noteq> r" by auto
      then show ?thesis using True again by simp
    qed
  qed
qed

text \<open>The amended statement at \<^verbatim>\<open>example.com/\<close>.\<close>

theorem normalizeBaseUrl_idempotent_iff_witness:
  "normalizeBaseUrl (Str ''example.com/'') = Inr ''https://example.com''
   \<and> normalizeBaseUrl (Str ''https://example.com'') = Inr ''https://example.com''"
proof -
  have a: "normalizeBaseUrl (Str ''example.com/'') = Inr ''https://example.com''"
    by (simp add: normalizeBaseUrl_def trim_def is_ws_def protocol_re_def canonicalize_def)
  have "last ''https://example.com'' \<noteq> CHR ''/'' \<and> \<not> is_ws (last ''https://example.com'')"
    by (simp add: is_ws_def)
  then show ?thesis using a normalizeBaseUrl_idempotent_iff [OF a] by simp
qed

subsection \<open>White space only\<close>

text \<open>
  Claim C9. A non-empty string of white space passes the emptiness test, which
  runs before the trimming; the call succeeds and returns \<^verbatim>\<open>https:/\<close>.
\<close>

theorem normalizeBaseUrl_whitespace_only:
  assumes "s \<noteq> []" and "\<forall>c \<in> set s. is_ws c"
  shows "normalizeBaseUrl (Str s) = Inr ''https:/''"
proof -
  have "trim s = []" using assms(2) by (rule trim_all_ws)
  then show ?thesis
    using assms(1)
    by (simp add: normalizeBaseUrl_def protocol_re_def)
qed

text \<open>The statement at the string of two spaces.\<close>

theorem normalizeBaseUrl_whitespace_only_witness:
  "normalizeBaseUrl (Str ''  '') = Inr ''https:/''"
  using normalizeBaseUrl_whitespace_only [of "''  ''"] by (simp add: is_ws_def)

section \<open>Properties of the client\<close>

subsection \<open>Failed requests\<close>




lemma request_Inl:
  "transport (merge_config (client this) config) = Inl error \<Longrightarrow>
   request this transport config context =
     (Inr (Rejected (buildError error context)), [merge_config (client this) config])"
  by (simp add: request_def Let_def)

lemma request_Inr:
  "transport (merge_config (client this) config) = Inr response \<Longrightarrow>
   request this transport config context =
     (Inr (Fulfilled (resp_data response)), [merge_config (client this) config])"
  by (simp add: request_def Let_def)

lemma async_return_request:
  "async_return (request this transport config context) = request this transport config context"
  by (simp add: async_return_def request_def Let_def)

lemma async_throw_not_synchronous: "\<not> fails_synchronously (async_throw e)"
  by (simp add: fails_synchronously_def async_throw_def)

lemma snd_request: "snd (request this transport config context) = [merge_config (client this) config]"
  by (simp add: request_def Let_def)

lemma ensureAppCheckToken_missing:
  "\<not> truthy (appCheckToken this) \<Longrightarrow>
   ensureAppCheckToken this action =
     Inl (new_Error (''An App Check token is required to '' @ action @
                     ''. Call setAppCheckToken(token) first.''))"
  by (simp add: ensureAppCheckToken_def)

lemma ensureAppCheckToken_present:
  "truthy (appCheckToken this) \<Longrightarrow> ensureAppCheckToken this action = Inr ()"
  by (simp add: ensureAppCheckToken_def)









subsection \<open>The guard of the protected methods\<close>

lemma normalize_default: "normalizeBaseUrl (Str DEFAULT_BASE_URL) = Inr ''https://api.geo.oof2510.space''"
  by (simp add: normalizeBaseUrl_def DEFAULT_BASE_URL_def trim_def is_ws_def protocol_re_def
      canonicalize_def)

lemma constructor_default: "constructor Undefined Undefined = Inr default_client"
  by (simp add: constructor_def normalize_default default_client_def)

lemma constructor_token: "constructor Undefined (Str ''abc'') = Inr token_client"
  by (simp add: constructor_def normalize_default default_client_def token_client_def)

lemma token_client_token: "appCheckToken token_client = Str ''abc''"
  by (simp add: token_client_def setAppCheckToken_def Let_def)

lemma default_client_token: "appCheckToken default_client = Null"
  by (simp add: default_client_def)

text \<open>
  Claim C3 as stated fails. The protected methods are declared \<^verbatim>\<open>async\<close>, so the
  throw of the guard does not make the call fail synchronously: the call returns a
  promise, which is rejected.
\<close>

theorem startGame_guard_not_synchronous:
  "constructor Undefined Undefined = Inr default_client
   \<and> \<not> truthy (appCheckToken default_client)
   \<and> \<not> fails_synchronously (startGame default_client ok_transport)
   \<and> startGame default_client ok_transport =
       (Inr (Rejected (new_Error ''An App Check token is required to start a game. Call setAppCheckToken(token) first.'')), [])"
  by (simp add: constructor_default default_client_token startGame_def ensureAppCheckToken_def
      async_throw_def fails_synchronously_def)

text \<open>
  Claim C3, amended. On a client whose stored token is not truthy (never set, or
  cleared), a call of \<^verbatim>\<open>startGame\<close>, \<^verbatim>\<open>submitScore\<close>, \<^verbatim>\<open>startAiDuel\<close> or
  \<^verbatim>\<open>submitAiGuess\<close>, whatever its arguments, returns a promise that is rejected with
  the error whose message names the action, and the transport receives no request.
  The source throws a plain \<^verbatim>\<open>Error\<close>, which the specification files under its
  configuration errors.
\<close>

theorem protected_call_guard:
  assumes "\<not> truthy (appCheckToken this)"
  shows "startGame this transport =
           (Inr (Rejected (new_Error ''An App Check token is required to start a game. Call setAppCheckToken(token) first.'')), [])
       \<and> submitScore this transport gameSessionId score metadata =
           (Inr (Rejected (new_Error ''An App Check token is required to submit a score. Call setAppCheckToken(token) first.'')), [])
       \<and> startAiDuel this transport =
           (Inr (Rejected (new_Error ''An App Check token is required to start an AI duel. Call setAppCheckToken(token) first.'')), [])
       \<and> submitAiGuess this transport matchId roundIndex guess =
           (Inr (Rejected (new_Error ''An App Check token is required to submit an AI duel guess. Call setAppCheckToken(token) first.'')), [])"
proof -
  have a: "startGame this transport =
           (Inr (Rejected (new_Error ''An App Check token is required to start a game. Call setAppCheckToken(token) first.'')), [])"
    by (simp add: startGame_def ensureAppCheckToken_missing [OF assms] async_throw_def)
  have b: "submitScore this transport gameSessionId score metadata =
           (Inr (Rejected (new_Error ''An App Check token is required to submit a score. Call setAppCheckToken(token) first.'')), [])"
    by (simp add: submitScore_def Let_def ensureAppCheckToken_missing [OF assms] async_throw_def)
  have c: "startAiDuel this transport =
           (Inr (Rejected (new_Error ''An App Check token is required to start an AI duel. Call setAppCheckToken(token) first.'')), [])"
    by (simp add: startAiDuel_def ensureAppCheckToken_missing [OF assms] async_throw_def)
  have d: "submitAiGuess this transport matchId roundIndex guess =
           (Inr (Rejected (new_Error ''An App Check token is required to submit an AI duel guess. Call setAppCheckToken(token) first.'')), [])"
    by (simp add: submitAiGuess_def ensureAppCheckToken_missing [OF assms] async_throw_def)
  from a b c d show ?thesis by (intro conjI)
qed

text \<open>
  The statement at the client built with no token, and at the client built with a
  token after the token was cleared.
\<close>

theorem protected_call_guard_witness:
  "constructor Undefined Undefined = Inr default_client
   \<and> startGame default_client ok_transport =
       (Inr (Rejected (new_Error ''An App Check token is required to start a game. Call setAppCheckToken(token) first.'')), [])
   \<and> constructor Undefined (Str ''abc'') = Inr token_client
   \<and> snd (submitScore (setAppCheckToken token_client Null) ok_transport
             (Str ''g1'') (Num 10) Undefined) = []"
proof -
  have n1: "\<not> truthy (appCheckToken default_client)" by (simp add: default_client_def)
  have n2: "\<not> truthy (appCheckToken (setAppCheckToken token_client Null))"
    by (simp add: setAppCheckToken_def Let_def)
  show ?thesis
    using protected_call_guard [OF n1, of ok_transport]
      protected_call_guard [OF n2, of ok_transport "Str ''g1''" "Num 10" Undefined]
    by (simp add: constructor_default constructor_token)
qed

subsection \<open>Submitting a score\<close>

text \<open>
  Claim C4 as stated fails: the fields of the body are named \<^verbatim>\<open>gameSessionId\<close>,
  \<^verbatim>\<open>score\<close> and \<^verbatim>\<open>metadata\<close>, not \<^verbatim>\<open>id\<close>, \<^verbatim>\<open>score\<close> and \<^verbatim>\<open>meta\<close>.
\<close>

theorem submitScore_body_not_id_score_meta:
  "constructor Undefined (Str ''abc'') = Inr token_client
   \<and> map sent_method (snd (submitScore token_client ok_transport (Str ''g1'') (Num 10) Undefined))
       = [''post'']
   \<and> map sent_url (snd (submitScore token_client ok_transport (Str ''g1'') (Num 10) Undefined))
       = [''/game/submit'']
   \<and> map (object_keys \<circ> sent_data)
        (snd (submitScore token_client ok_transport (Str ''g1'') (Num 10) Undefined))
       = [[''gameSessionId'', ''score'', ''metadata'']]
   \<and> map (object_keys \<circ> sent_data)
        (snd (submitScore token_client ok_transport (Str ''g1'') (Num 10) Undefined))
       \<noteq> [[''id'', ''score'', ''meta'']]"
  by (simp add: constructor_token submitScore_def ensureAppCheckToken_def token_client_token
      async_return_request snd_request merge_config_def object_keys_def Let_def)

text \<open>
  Claim C4, amended. With a token configured, a truthy \<^verbatim>\<open>gameSessionId\<close> and a score
  of type number, \<^verbatim>\<open>submitScore\<close> sends one request, \<^verbatim>\<open>POST /game/submit\<close>, whose
  body has exactly the fields \<^verbatim>\<open>gameSessionId\<close>, \<^verbatim>\<open>score\<close> and \<^verbatim>\<open>metadata\<close>, the last
  being the empty object when the argument is omitted.
\<close>

theorem submitScore_request:
  assumes "truthy (appCheckToken this)" and "truthy gameSessionId" and "typeof score = ''number''"
  shows "map (\<lambda>r. (sent_method r, sent_url r, sent_data r))
           (snd (submitScore this transport gameSessionId score metadata)) =
           [(''post'', ''/game/submit'',
             Obj [(''gameSessionId'', gameSessionId), (''score'', score),
                  (''metadata'', if metadata = Undefined then Obj [] else metadata)])]
       \<and> map (\<lambda>r. object_keys (sent_data r))
           (snd (submitScore this transport gameSessionId score metadata)) =
           [[''gameSessionId'', ''score'', ''metadata'']]"
  using assms
  by (simp add: submitScore_def ensureAppCheckToken_present async_return_request snd_request
      merge_config_def object_keys_def Let_def)

text \<open>The amended statement at \<^verbatim>\<open>submitScore("g1", 10)\<close>.\<close>

theorem submitScore_request_witness:
  "map (\<lambda>r. (sent_method r, sent_url r, sent_data r))
     (snd (submitScore token_client ok_transport (Str ''g1'') (Num 10) Undefined)) =
     [(''post'', ''/game/submit'',
       Obj [(''gameSessionId'', Str ''g1''), (''score'', Num 10), (''metadata'', Obj [])])]"
  using submitScore_request [of token_client "Str ''g1''" "Num 10" ok_transport Undefined]
  by (simp add: token_client_token)

subsection \<open>Submitting a guess\<close>

text \<open>
  Claim C7 as stated fails. \<^verbatim>\<open>submitAiGuess\<close> is declared \<^verbatim>\<open>async\<close>, so the throw
  for a negative round index does not make the call fail synchronously: the call
  returns a promise, which is rejected.
\<close>

theorem submitAiGuess_negative_not_synchronous:
  "constructor Undefined (Str ''abc'') = Inr token_client
   \<and> \<not> fails_synchronously
        (submitAiGuess token_client ok_transport (Str ''m1'') (Num (- 1)) (Str ''France''))
   \<and> submitAiGuess token_client ok_transport (Str ''m1'') (Num (- 1)) (Str ''France'') =
       (Inr (Rejected (new_Error ''roundIndex must be a non-negative number.'')), [])"
  by (simp add: constructor_token submitAiGuess_def ensureAppCheckToken_def token_client_token
      less_than_zero_def async_throw_def fails_synchronously_def)

text \<open>
  Claim C7, amended. With a token configured, a call of \<^verbatim>\<open>submitAiGuess\<close> returns a
  promise that is rejected, before any request is sent, when \<^verbatim>\<open>matchId\<close> is not
  truthy, or when \<^verbatim>\<open>roundIndex\<close> is not of type number or is below zero; otherwise it
  sends one request, \<^verbatim>\<open>POST /ai-duel/guess\<close>, with the body
  \<^verbatim>\<open>{matchId, roundIndex, guess}\<close>. \<^verbatim>\<open>NaN\<close> is of type number and not below zero, so it
  is sent. The source throws a plain \<^verbatim>\<open>Error\<close> in both failing cases, which the
  specification files under its validation errors.
\<close>

theorem submitAiGuess_validation:
  assumes "truthy (appCheckToken this)"
  shows "(\<not> truthy matchId \<longrightarrow>
            submitAiGuess this transport matchId roundIndex guess =
              (Inr (Rejected (new_Error ''matchId is required to submit an AI duel guess.'')), []))
       \<and> (truthy matchId \<and> (typeof roundIndex \<noteq> ''number'' \<or> (\<exists>n. roundIndex = Num n \<and> n < 0)) \<longrightarrow>
            submitAiGuess this transport matchId roundIndex guess =
              (Inr (Rejected (new_Error ''roundIndex must be a non-negative number.'')), []))
       \<and> (truthy matchId \<and> typeof roundIndex = ''number'' \<and> \<not> (\<exists>n. roundIndex = Num n \<and> n < 0) \<longrightarrow>
            map (\<lambda>r. (sent_method r, sent_url r, sent_data r))
              (snd (submitAiGuess this transport matchId roundIndex guess)) =
              [(''post'', ''/ai-duel/guess'',
                Obj [(''matchId'', matchId), (''roundIndex'', roundIndex), (''guess'', guess)])])"
proof -
  have neg: "less_than_zero roundIndex = (\<exists>n. roundIndex = Num n \<and> n < 0)"
    by (cases roundIndex) (simp_all add: less_than_zero_def)
  show ?thesis
    unfolding neg [symmetric]
    by (simp add: submitAiGuess_def ensureAppCheckToken_present [OF assms] async_throw_def
        async_return_request snd_request merge_config_def)
qed

text \<open>The statement at \<^verbatim>\<open>submitAiGuess("m1", -1, "France")\<close>.\<close>

theorem submitAiGuess_validation_witness:
  "submitAiGuess token_client ok_transport (Str ''m1'') (Num (- 1)) (Str ''France'')
   = (Inr (Rejected (new_Error ''roundIndex must be a non-negative number.'')), [])"
  using submitAiGuess_validation [of token_client "Str ''m1''" ok_transport "Num (- 1)"
      "Str ''France''"]
  by (simp add: token_client_token)

subsection \<open>The leaderboard\<close>

text \<open>
  Claim C8. \<^verbatim>\<open>getLeaderboard()\<close> sends \<^verbatim>\<open>GET /leaderboard/top\<close> without query
  parameters, and \<^verbatim>\<open>getLeaderboard(10)\<close> sends it with the query parameter
  \<^verbatim>\<open>limit\<close> equal to 10.
\<close>

theorem getLeaderboard_query:
  "map (\<lambda>r. (sent_method r, sent_url r, sent_params r))
     (snd (getLeaderboard this transport Undefined)) = [(''get'', ''/leaderboard/top'', Undefined)]
   \<and> map (\<lambda>r. (sent_method r, sent_url r, sent_params r))
        (snd (getLeaderboard this transport (Num 10))) =
      [(''get'', ''/leaderboard/top'', Obj [(''limit'', Num 10)])]"
  by (simp add: getLeaderboard_def async_return_request snd_request merge_config_def)

text \<open>
  Claim C10. \<^verbatim>\<open>getLeaderboard(0)\<close> sends \<^verbatim>\<open>GET /leaderboard/top\<close> without query
  parameters: 0 is not truthy, so the call does what the call without an argument
  does.
\<close>

theorem getLeaderboard_zero:
  "map (\<lambda>r. (sent_method r, sent_url r, sent_params r))
     (snd (getLeaderboard this transport (Num 0))) = [(''get'', ''/leaderboard/top'', Undefined)]
   \<and> getLeaderboard this transport (Num 0) = getLeaderboard this transport Undefined"
  by (simp add: getLeaderboard_def async_return_request snd_request merge_config_def)


subsection \<open>The App Check header\<close>

lemma token_header_inv_setAppCheckToken: "token_header_inv (setAppCheckToken this token)"
  by (simp add: token_header_inv_def setAppCheckToken_def Let_def)

lemma token_header_inv_initial:
  "token_header_inv \<lparr>baseURL = u, client = axios_create u t, appCheckToken = Null\<rparr>"
  by (simp add: token_header_inv_def axios_create_def)

lemma token_header_inv_constructor:
  assumes "constructor b t = Inr this"
  shows "token_header_inv this"
proof -
  define b' where "b' = (if b = Undefined then Str DEFAULT_BASE_URL else b)"
  define t' where "t' = (if t = Undefined then Null else t)"
  from assms obtain u where u: "normalizeBaseUrl b' = Inr u"
    and shape: "this = (if truthy t'
                       then setAppCheckToken
                              \<lparr>baseURL = u, client = axios_create u 15000, appCheckToken = Null\<rparr> t'
                       else \<lparr>baseURL = u, client = axios_create u 15000, appCheckToken = Null\<rparr>)"
    unfolding constructor_def Let_def b'_def [symmetric] t'_def [symmetric]
    by (cases "normalizeBaseUrl b'") auto
  show ?thesis
    unfolding shape
    by (simp add: token_header_inv_setAppCheckToken token_header_inv_initial)
qed

lemma request_header:
  "map (\<lambda>r. sent_headers r k) (snd (request this transport config context)) =
     [defaults_headers_common (client this) k]"
  by (simp add: snd_request merge_config_def)

text \<open>
  Claim C6. The constructor establishes \<open>token_header_inv\<close> and every call of
  \<^verbatim>\<open>setAppCheckToken\<close> re-establishes it: the header \<^verbatim>\<open>X-Firebase-AppCheck\<close> is among
  the defaults, with the stored token as its value, exactly when the stored token is
  truthy. Under the invariant a request carries the header exactly then. After
  \<^verbatim>\<open>setAppCheckToken\<close> with a non-empty string the token is stored and a request
  carries the header with that value; after \<^verbatim>\<open>setAppCheckToken(null)\<close> the stored
  token is \<^verbatim>\<open>null\<close> and a request carries no such header.
\<close>

theorem token_header_invariant:
  "(constructor b t = Inr this \<longrightarrow> token_header_inv this)
   \<and> token_header_inv (setAppCheckToken this0 token)
   \<and> (token_header_inv this1 \<longrightarrow>
        map (\<lambda>r. sent_headers r ''X-Firebase-AppCheck'')
          (snd (request this1 transport config context)) =
        [if truthy (appCheckToken this1) then Some (appCheckToken this1) else None])
   \<and> (s \<noteq> [] \<longrightarrow>
        appCheckToken (setAppCheckToken this0 (Str s)) = Str s
        \<and> map (\<lambda>r. sent_headers r ''X-Firebase-AppCheck'')
            (snd (request (setAppCheckToken this0 (Str s)) transport config context)) =
          [Some (Str s)])
   \<and> appCheckToken (setAppCheckToken this0 Null) = Null
   \<and> map (\<lambda>r. sent_headers r ''X-Firebase-AppCheck'')
       (snd (request (setAppCheckToken this0 Null) transport config context)) = [None]"
proof -
  have a: "constructor b t = Inr this \<longrightarrow> token_header_inv this"
    using token_header_inv_constructor by blast
  have b: "token_header_inv (setAppCheckToken this0 token)"
    by (rule token_header_inv_setAppCheckToken)
  have c: "token_header_inv this1 \<longrightarrow>
        map (\<lambda>r. sent_headers r ''X-Firebase-AppCheck'')
          (snd (request this1 transport config context)) =
        [if truthy (appCheckToken this1) then Some (appCheckToken this1) else None]"
    unfolding request_header by (simp add: token_header_inv_def)
  have d: "s \<noteq> [] \<longrightarrow>
        appCheckToken (setAppCheckToken this0 (Str s)) = Str s
        \<and> map (\<lambda>r. sent_headers r ''X-Firebase-AppCheck'')
            (snd (request (setAppCheckToken this0 (Str s)) transport config context)) =
          [Some (Str s)]"
    unfolding request_header by (simp add: setAppCheckToken_def Let_def)
  have e: "appCheckToken (setAppCheckToken this0 Null) = Null"
    by (simp add: setAppCheckToken_def Let_def)
  have f: "map (\<lambda>r. sent_headers r ''X-Firebase-AppCheck'')
       (snd (request (setAppCheckToken this0 Null) transport config context)) = [None]"
    unfolding request_header by (simp add: setAppCheckToken_def Let_def)
  from a b c d e f show ?thesis by (intro conjI)
qed

text \<open>
  The statement at the client built with the token \<^verbatim>\<open>abc\<close>, before and after
  \<^verbatim>\<open>setAppCheckToken(null)\<close>.
\<close>

theorem token_header_invariant_witness:
  "constructor Undefined (Str ''abc'') = Inr token_client
   \<and> token_header_inv token_client
   \<and> appCheckToken token_client = Str ''abc''
   \<and> map (\<lambda>r. sent_headers r ''X-Firebase-AppCheck'') (snd (getImage token_client ok_transport)) =
       [Some (Str ''abc'')]
   \<and> appCheckToken (setAppCheckToken token_client Null) = Null
   \<and> map (\<lambda>r. sent_headers r ''X-Firebase-AppCheck'')
       (snd (getImage (setAppCheckToken token_client Null) ok_transport)) = [None]"
proof -
  let ?cfg = "\<lparr>http_method = ''get'', url = ''/getImage'', data = Undefined, params = Undefined\<rparr>"
  show ?thesis
    using token_header_invariant [of Undefined "Str ''abc''" token_client token_client Null
        token_client ok_transport ?cfg "Some ''fetch image payload''" "''abc''"]
    by (simp add: constructor_token token_client_token getImage_def async_return_request)
qed


end
